theory Spec2Isabelle
  imports Complex_Main
begin

section \<open>Python values, exceptions and sequences\<close>

text \<open>
  Exceptions are values: a call that raises returns \<open>Inl\<close> of the exception, a call that
  returns gives \<open>Inr\<close> of its result. \<open>PybError\<close> is the exception the engine binding
  raises (\<open>pybullet.error\<close>); the wrapper never catches it, so it propagates.
\<close>

datatype pyerr =
    ValueError string
  | IndexError string
  | TypeError string
  | PybError string

text \<open>
  The engine returns positional tuples of mixed values (numbers, byte strings, nested
  tuples). A raw tuple is a list of \<open>pyval\<close>; Python floats are modelled as reals, since
  the wrapper never computes with them: it only moves them.
\<close>

datatype pyval =
    PyInt int
  | PyFloat real
  | PyBytes string
  | PyTuple "pyval list"

text \<open>\<open>list(range(n))\<close>: the integers \<open>0 .. n - 1\<close>, empty when \<open>n \<le> 0\<close>.\<close>

definition py_range :: "int \<Rightarrow> int list" where
  "py_range n = [0..n - 1]"

text \<open>
  \<open>xs[i]\<close>: a negative index counts from the end, and an index out of range raises
  \<open>IndexError\<close>. \<open>kind\<close> is the name of the sequence type in the message.
\<close>

definition py_getitem :: "string \<Rightarrow> 'a list \<Rightarrow> int \<Rightarrow> pyerr + 'a" where
  "py_getitem kind xs i =
     (let n = int (length xs); j = (if i < 0 then i + n else i)
      in if 0 \<le> j \<and> j < n then Inr (xs ! nat j)
         else Inl (IndexError (kind @ '' index out of range'')))"

text \<open>
  A list comprehension \<open>[f(x) for x in xs]\<close> whose body may raise: the elements are
  built left to right and the first exception ends the comprehension.
\<close>

fun py_listcomp :: "('a \<Rightarrow> pyerr + 'b) \<Rightarrow> 'a list \<Rightarrow> pyerr + 'b list" where
  "py_listcomp f [] = Inr []"
| "py_listcomp f (x # xs) =
     (case f x of
        Inl e \<Rightarrow> Inl e
      | Inr y \<Rightarrow> (case py_listcomp f xs of Inl e \<Rightarrow> Inl e | Inr ys \<Rightarrow> Inr (y # ys)))"

section \<open>The engine binding\<close>

text \<open>
  The physics engine is an external collaborator: the wrapper only calls it. It is a
  parameter of the model, a record of the functions of the binding (\<open>pyb\<close>) that the
  sources call, over an engine state \<open>'w\<close> that the model never inspects. A query
  reads the state; a command returns the next state. Every call may raise.

  The tuple layouts are the binding's documented positional contract.
\<close>

text \<open>
  One entry of \<open>pyb.getJointStates\<close>: the tuple
  \<open>(jointPosition, jointVelocity, jointReactionForces, appliedJointMotorTorque)\<close>.
\<close>

type_synonym JointState = "real \<times> real \<times> real list \<times> real"

text \<open>
  \<open>pyb.getLinkState\<close> without link velocities returns six vectors. In the binding's
  documentation the first two are the pose of the link's centre of mass in the world
  frame, the next two the offset of the inertial frame in the link frame, and the last
  two the pose of the URDF link frame in the world frame.
\<close>

record LinkState =
  linkWorldPosition :: "real list"
  linkWorldOrientation :: "real list"
  localInertialFramePosition :: "real list"
  localInertialFrameOrientation :: "real list"
  worldLinkFramePosition :: "real list"
  worldLinkFrameOrientation :: "real list"

text \<open>The link state as the tuple the binding returns, in its positional order.\<close>

definition LinkState_tuple :: "LinkState \<Rightarrow> real list list" where
  "LinkState_tuple st =
     [linkWorldPosition st, linkWorldOrientation st,
      localInertialFramePosition st, localInertialFrameOrientation st,
      worldLinkFramePosition st, worldLinkFrameOrientation st]"

text \<open>
  The joint-info record the Robot reads: the joint's index and its name. The engine
  gives the name as a byte string.
\<close>

record JointInfo =
  jointIndex :: int
  jointName :: string

record 'w pyb =
  pyb_getNumJoints :: "'w \<Rightarrow> int \<Rightarrow> pyerr + int"
  pyb_getJointInfo :: "'w \<Rightarrow> int \<Rightarrow> int \<Rightarrow> int \<Rightarrow> pyerr + JointInfo"
  pyb_getJointStates :: "'w \<Rightarrow> int \<Rightarrow> int list \<Rightarrow> pyerr + JointState list"
  pyb_resetJointState :: "'w \<Rightarrow> int \<Rightarrow> int \<Rightarrow> real \<Rightarrow> pyerr + 'w"
  pyb_VELOCITY_CONTROL :: int
  pyb_setJointMotorControlArray ::
    "'w \<Rightarrow> int \<Rightarrow> int list \<Rightarrow> int \<Rightarrow> real list \<Rightarrow> pyerr + 'w"
  pyb_getLinkState :: "'w \<Rightarrow> int \<Rightarrow> int \<Rightarrow> bool \<Rightarrow> pyerr + LinkState"
  pyb_calculateJacobian ::
    "'w \<Rightarrow> int \<Rightarrow> int \<Rightarrow> real list \<Rightarrow> real list \<Rightarrow> real list \<Rightarrow> real list
       \<Rightarrow> pyerr + (real list list \<times> real list list)"
  pyb_getDynamicsInfo :: "'w \<Rightarrow> int \<Rightarrow> int \<Rightarrow> int \<Rightarrow> pyerr + pyval list"
  pyb_getContactPoints ::
    "'w \<Rightarrow> int \<Rightarrow> int \<Rightarrow> int \<Rightarrow> int \<Rightarrow> int \<Rightarrow> pyerr + pyval list list"
  bytes_decode :: "string \<Rightarrow> string \<Rightarrow> pyerr + string"

text \<open>
  \<open>pyb_getLinkState w uid link fk\<close> is the call with \<open>computeForwardKinematics=fk\<close>;
  \<open>pyb_setJointMotorControlArray w uid indices mode targets\<close> is the call with
  \<open>controlMode=mode\<close> and \<open>targetVelocities=targets\<close>; \<open>bytes_decode enc bs\<close> is
  Python's \<open>bs.decode(enc)\<close>.
\<close>

section \<open>named_tuples.py\<close>

text \<open>
  Modelled from the spec: \<open>getJointInfo\<close>, which \<open>robots.py\<close> imports from
  \<open>named_tuples.py\<close> and which is not among the sources. The spec describes it as a
  joint-info adapter producing records with at least \<open>jointIndex\<close> and \<open>jointName\<close>
  fields, with the byte-string name decoded using the given text encoding.
\<close>

definition getJointInfo ::
  "'w pyb \<Rightarrow> 'w \<Rightarrow> int \<Rightarrow> int \<Rightarrow> int \<Rightarrow> string option \<Rightarrow> pyerr + JointInfo" where
  "getJointInfo eng w bodyUniqueId jointIdx physicsClientId decode =
     (case pyb_getJointInfo eng w bodyUniqueId jointIdx physicsClientId of
        Inl e \<Rightarrow> Inl e
      | Inr info \<Rightarrow>
          (case decode of
             None \<Rightarrow> Inr info
           | Some enc \<Rightarrow>
               (case bytes_decode eng enc (jointName info) of
                  Inl e \<Rightarrow> Inl e
                | Inr name \<Rightarrow> Inr (info\<lparr>jointName := name\<rparr>))))"

text \<open>
  \<open>DynamicsInfo\<close> and \<open>ContactPoint\<close> are named tuples: the field names in their
  declared order, and a constructor that binds its positional arguments to the fields
  one by one and raises \<open>TypeError\<close> unless it gets exactly one argument per field.
\<close>

record DynamicsInfo =
  mass :: pyval
  lateralFriction :: pyval
  localInertiaDiagonal :: pyval
  localInerialPos :: pyval
  localInertialOrn :: pyval
  restitution :: pyval
  rollingFriction :: pyval
  spinningFriction :: pyval
  contactDamping :: pyval
  contactStiffness :: pyval
  bodyType :: pyval
  collisionMargin :: pyval

definition DynamicsInfo_fields :: "string list" where
  "DynamicsInfo_fields =
     [''mass'', ''lateralFriction'', ''localInertiaDiagonal'', ''localInerialPos'',
      ''localInertialOrn'', ''restitution'', ''rollingFriction'', ''spinningFriction'',
      ''contactDamping'', ''contactStiffness'', ''bodyType'', ''collisionMargin'']"

text \<open>The record read as a tuple again: \<open>tuple(info)\<close>, the fields in declared order.\<close>

definition DynamicsInfo_tuple :: "DynamicsInfo \<Rightarrow> pyval list" where
  "DynamicsInfo_tuple d =
     [mass d, lateralFriction d, localInertiaDiagonal d, localInerialPos d,
      localInertialOrn d, restitution d, rollingFriction d, spinningFriction d,
      contactDamping d, contactStiffness d, bodyType d, collisionMargin d]"

definition DynamicsInfo_new :: "pyval list \<Rightarrow> pyerr + DynamicsInfo" where
  "DynamicsInfo_new args =
     (if length args = length DynamicsInfo_fields then
        Inr \<lparr>mass = args ! 0, lateralFriction = args ! 1, localInertiaDiagonal = args ! 2,
             localInerialPos = args ! 3, localInertialOrn = args ! 4,
             restitution = args ! 5, rollingFriction = args ! 6,
             spinningFriction = args ! 7, contactDamping = args ! 8,
             contactStiffness = args ! 9, bodyType = args ! 10,
             collisionMargin = args ! 11\<rparr>
      else Inl (TypeError ''DynamicsInfo.__new__(): wrong number of positional arguments''))"

record ContactPoint =
  contactFlag :: pyval
  bodyUniqueIdA :: pyval
  bodyUniqueIdB :: pyval
  linkIndexA :: pyval
  linkIndexB :: pyval
  positionOnA :: pyval
  positionOnB :: pyval
  contactNormalOnB :: pyval
  contactDistance :: pyval
  normalForce :: pyval
  lateralFriction1 :: pyval
  lateralFrictionDir1 :: pyval
  lateralFriction2 :: pyval
  lateralFrictionDir2 :: pyval

definition ContactPoint_fields :: "string list" where
  "ContactPoint_fields =
     [''contactFlag'', ''bodyUniqueIdA'', ''bodyUniqueIdB'', ''linkIndexA'', ''linkIndexB'',
      ''positionOnA'', ''positionOnB'', ''contactNormalOnB'', ''contactDistance'',
      ''normalForce'', ''lateralFriction1'', ''lateralFrictionDir1'', ''lateralFriction2'',
      ''lateralFrictionDir2'']"

definition ContactPoint_tuple :: "ContactPoint \<Rightarrow> pyval list" where
  "ContactPoint_tuple c =
     [contactFlag c, bodyUniqueIdA c, bodyUniqueIdB c, linkIndexA c, linkIndexB c,
      positionOnA c, positionOnB c, contactNormalOnB c, contactDistance c, normalForce c,
      lateralFriction1 c, lateralFrictionDir1 c, lateralFriction2 c, lateralFrictionDir2 c]"

definition ContactPoint_new :: "pyval list \<Rightarrow> pyerr + ContactPoint" where
  "ContactPoint_new args =
     (if length args = length ContactPoint_fields then
        Inr \<lparr>contactFlag = args ! 0, bodyUniqueIdA = args ! 1, bodyUniqueIdB = args ! 2,
             linkIndexA = args ! 3, linkIndexB = args ! 4, positionOnA = args ! 5,
             positionOnB = args ! 6, contactNormalOnB = args ! 7,
             contactDistance = args ! 8, normalForce = args ! 9,
             lateralFriction1 = args ! 10, lateralFrictionDir1 = args ! 11,
             lateralFriction2 = args ! 12, lateralFrictionDir2 = args ! 13\<rparr>
      else Inl (TypeError ''ContactPoint.__new__(): wrong number of positional arguments''))"

text \<open>
  \<open>getDynamicsInfo(bodyUniqueId, linkIndex, physicsClientId=0)\<close> and
  \<open>getContactPoints(bodyA=-1, bodyB=-1, linkIndexA=-2, linkIndexB=-2, physicsClientId=0)\<close>:
  the caller of the model passes the defaults itself.
\<close>

definition getDynamicsInfo :: "'w pyb \<Rightarrow> 'w \<Rightarrow> int \<Rightarrow> int \<Rightarrow> int \<Rightarrow> pyerr + DynamicsInfo" where
  "getDynamicsInfo eng w bodyUniqueId linkIndex physicsClientId =
     (case pyb_getDynamicsInfo eng w bodyUniqueId linkIndex physicsClientId of
        Inl e \<Rightarrow> Inl e
      | Inr raw \<Rightarrow> DynamicsInfo_new raw)"

definition getContactPoints ::
  "'w pyb \<Rightarrow> 'w \<Rightarrow> int \<Rightarrow> int \<Rightarrow> int \<Rightarrow> int \<Rightarrow> int \<Rightarrow> pyerr + ContactPoint list" where
  "getContactPoints eng w bodyA bodyB linkIdxA linkIdxB physicsClientId =
     (case pyb_getContactPoints eng w bodyA bodyB linkIdxA linkIdxB physicsClientId of
        Inl e \<Rightarrow> Inl e
      | Inr points_raw \<Rightarrow> py_listcomp ContactPoint_new points_raw)"

section \<open>robots.py\<close>

record Robot =
  uid :: int
  num_joints :: int
  joint_indices :: "int list"
  tool_idx :: int

text \<open>
  The loop of \<open>Robot.__init__\<close> over \<open>range(self.num_joints)\<close>: \<open>Inr None\<close> when it
  ends with \<open>self.tool_idx\<close> still \<open>None\<close>, \<open>Inr (Some idx)\<close> when it breaks at a
  joint of the given name.
\<close>

fun find_tool_idx :: "'w pyb \<Rightarrow> 'w \<Rightarrow> int \<Rightarrow> string \<Rightarrow> int list \<Rightarrow> pyerr + int option" where
  "find_tool_idx eng w u tool_joint_name [] = Inr None"
| "find_tool_idx eng w u tool_joint_name (i # rest) =
     (case getJointInfo eng w u i 0 (Some ''utf-8'') of
        Inl e \<Rightarrow> Inl e
      | Inr info \<Rightarrow>
          if jointName info = tool_joint_name then Inr (Some (jointIndex info))
          else find_tool_idx eng w u tool_joint_name rest)"

definition Robot_init :: "'w pyb \<Rightarrow> 'w \<Rightarrow> int \<Rightarrow> string option \<Rightarrow> pyerr + Robot" where
  "Robot_init eng w u tool_joint_name =
     (case pyb_getNumJoints eng w u of
        Inl e \<Rightarrow> Inl e
      | Inr n \<Rightarrow>
          (let idxs = py_range n in
           case tool_joint_name of
             None \<Rightarrow>
               (case py_getitem ''list'' idxs (- 1) of
                  Inl e \<Rightarrow> Inl e
                | Inr t \<Rightarrow>
                    Inr \<lparr>uid = u, num_joints = n, joint_indices = idxs, tool_idx = t\<rparr>)
           | Some name \<Rightarrow>
               (case find_tool_idx eng w u name (py_range n) of
                  Inl e \<Rightarrow> Inl e
                | Inr None \<Rightarrow>
                    Inl (ValueError (''No joint with name '' @ name @ '' found.''))
                | Inr (Some t) \<Rightarrow>
                    Inr \<lparr>uid = u, num_joints = n, joint_indices = idxs, tool_idx = t\<rparr>)))"

text \<open>
  The numpy calls of \<open>robots.py\<close>. A vector is a list and a matrix the list of its rows;
  \<open>np.array\<close> of a sequence of floats keeps its elements and their order, so it is
  left out. \<open>np.vstack((A, B))\<close> first reads an empty sequence as one empty row
  (\<open>np.atleast_2d\<close>), then stacks the rows of \<open>A\<close> above those of \<open>B\<close>, and raises
  \<open>ValueError\<close> unless all rows are equally long.
\<close>

definition np_zeros :: "nat \<Rightarrow> real list" where
  "np_zeros n = replicate n 0"

definition np_zeros_like :: "real list \<Rightarrow> real list" where
  "np_zeros_like q = replicate (length q) 0"

definition np_atleast_2d :: "real list list \<Rightarrow> real list list" where
  "np_atleast_2d A = (if A = [] then [[]] else A)"

definition np_vstack :: "real list list \<Rightarrow> real list list \<Rightarrow> pyerr + real list list" where
  "np_vstack A B =
     (let rows = np_atleast_2d A @ np_atleast_2d B
      in if list_all (\<lambda>row. length row = length (hd rows)) rows then Inr rows
         else Inl (ValueError ''all the input array dimensions except for the concatenation axis must match exactly''))"

text \<open>The shape of a matrix: \<open>m\<close> rows, each of \<open>n\<close> entries.\<close>

definition has_shape :: "real list list \<Rightarrow> nat \<Rightarrow> nat \<Rightarrow> bool" where
  "has_shape A m n = (length A = m \<and> list_all (\<lambda>row. length row = n) A)"

definition get_joint_states :: "'w pyb \<Rightarrow> 'w \<Rightarrow> Robot \<Rightarrow> pyerr + (real list \<times> real list)" where
  "get_joint_states eng w self =
     (case pyb_getJointStates eng w (uid self) (joint_indices self) of
        Inl e \<Rightarrow> Inl e
      | Inr states \<Rightarrow>
          Inr (map (\<lambda>state. fst state) states, map (\<lambda>state. fst (snd state)) states))"

text \<open>
  \<open>reset_joint_configuration\<close>: the loop over \<open>zip(self._joint_indices, q)\<close>, one
  \<open>pyb.resetJointState\<close> per pair; an exception of the engine ends the loop.
\<close>

fun reset_joint_loop :: "'w pyb \<Rightarrow> int \<Rightarrow> (int \<times> real) list \<Rightarrow> 'w \<Rightarrow> pyerr + 'w" where
  "reset_joint_loop eng u [] w = Inr w"
| "reset_joint_loop eng u ((idx, angle) # rest) w =
     (case pyb_resetJointState eng w u idx angle of
        Inl e \<Rightarrow> Inl e
      | Inr w' \<Rightarrow> reset_joint_loop eng u rest w')"

definition reset_joint_configuration :: "'w pyb \<Rightarrow> 'w \<Rightarrow> Robot \<Rightarrow> real list \<Rightarrow> pyerr + 'w" where
  "reset_joint_configuration eng w self q =
     reset_joint_loop eng (uid self) (zip (joint_indices self) q) w"

definition command_velocity :: "'w pyb \<Rightarrow> 'w \<Rightarrow> Robot \<Rightarrow> real list \<Rightarrow> pyerr + 'w" where
  "command_velocity eng w self u =
     pyb_setJointMotorControlArray eng w (uid self) (joint_indices self)
       (pyb_VELOCITY_CONTROL eng) u"

definition get_link_pose ::
  "'w pyb \<Rightarrow> 'w \<Rightarrow> Robot \<Rightarrow> int option \<Rightarrow> pyerr + (real list \<times> real list)" where
  "get_link_pose eng w self link_idx =
     (let link = (case link_idx of None \<Rightarrow> tool_idx self | Some l \<Rightarrow> l) in
      case pyb_getLinkState eng w (uid self) link True of
        Inl e \<Rightarrow> Inl e
      | Inr st \<Rightarrow>
          (case py_getitem ''tuple'' (LinkState_tuple st) 4 of
             Inl e \<Rightarrow> Inl e
           | Inr pos \<Rightarrow>
               (case py_getitem ''tuple'' (LinkState_tuple st) 5 of
                  Inl e \<Rightarrow> Inl e
                | Inr orn \<Rightarrow> Inr (pos, orn))))"

definition jacobian ::
  "'w pyb \<Rightarrow> 'w \<Rightarrow> Robot \<Rightarrow> real list option \<Rightarrow> int option \<Rightarrow> real list option
     \<Rightarrow> pyerr + real list list" where
  "jacobian eng w self q link_idx offset =
     (case (case q of
              None \<Rightarrow> (case get_joint_states eng w self of
                         Inl e \<Rightarrow> Inl e
                       | Inr (q0, v0) \<Rightarrow> Inr q0)
            | Some q1 \<Rightarrow> Inr q1) of
        Inl e \<Rightarrow> Inl e
      | Inr q' \<Rightarrow>
          (let offset' = (case offset of None \<Rightarrow> np_zeros 3 | Some off \<Rightarrow> off);
               link = (case link_idx of None \<Rightarrow> tool_idx self | Some l \<Rightarrow> l);
               z = np_zeros_like q'
           in case pyb_calculateJacobian eng w (uid self) link offset' q' z z of
                Inl e \<Rightarrow> Inl e
              | Inr (Jv, Jw) \<Rightarrow> np_vstack Jv Jw))"

section \<open>A recording engine with a two-joint arm\<close>

text \<open>
  A concrete engine on which the theorems are run: body 0 is an arm with the joints
  \<open>joint1\<close> and \<open>joint2\<close>, body 1 has no joint, and no other body is loaded. Its state is
  the log of the commands it has received, so that a run shows what the wrapper sent.
  The centre of mass of link 1 lies half a unit above the link frame.
\<close>

datatype pyb_call =
    ResetJointState int int real
  | SetJointMotorControlArray int "int list" int "real list"

definition arm_link_state :: LinkState where
  "arm_link_state =
     \<lparr>linkWorldPosition = [0, 0, 3 / 2], linkWorldOrientation = [0, 0, 0, 1],
      localInertialFramePosition = [0, 0, 1 / 2], localInertialFrameOrientation = [0, 0, 0, 1],
      worldLinkFramePosition = [0, 0, 1], worldLinkFrameOrientation = [0, 0, 0, 1]\<rparr>"

definition arm_dynamics_raw :: "pyval list" where
  "arm_dynamics_raw =
     [PyFloat 1, PyFloat (1 / 2), PyTuple [PyFloat 1, PyFloat 1, PyFloat 1],
      PyTuple [PyFloat 0, PyFloat 0, PyFloat (1 / 2)],
      PyTuple [PyFloat 0, PyFloat 0, PyFloat 0, PyFloat 1],
      PyFloat 0, PyFloat 0, PyFloat 0, PyFloat (- 1), PyFloat (- 1), PyInt 2, PyFloat 0]"

definition arm_contact_raw :: "int \<Rightarrow> pyval list" where
  "arm_contact_raw l =
     [PyInt 0, PyInt 0, PyInt 7, PyInt l, PyInt (- 1),
      PyTuple [PyFloat 0, PyFloat 0, PyFloat 0], PyTuple [PyFloat 0, PyFloat 0, PyFloat 0],
      PyTuple [PyFloat 0, PyFloat 0, PyFloat 1], PyFloat 0, PyFloat 9,
      PyFloat 0, PyTuple [PyFloat 1, PyFloat 0, PyFloat 0],
      PyFloat 0, PyTuple [PyFloat 0, PyFloat 1, PyFloat 0]]"

definition arm_pyb :: "pyb_call list pyb" where
  "arm_pyb =
     \<lparr>pyb_getNumJoints = (\<lambda>w b.
        if b = 0 then Inr 2 else if b = 1 then Inr 0
        else Inl (PybError ''getNumJoints failed.'')),
      pyb_getJointInfo = (\<lambda>w b i c.
        if b = 0 \<and> i = 0 then Inr \<lparr>jointIndex = 0, jointName = ''joint1''\<rparr>
        else if b = 0 \<and> i = 1 then Inr \<lparr>jointIndex = 1, jointName = ''joint2''\<rparr>
        else Inl (PybError ''GetJointInfo failed.'')),
      pyb_getJointStates = (\<lambda>w b idxs.
        if b = 0 then Inr (map (\<lambda>i. (of_int i + 1 / 2, - of_int i, [], 0)) idxs)
        else Inl (PybError ''getJointState failed.'')),
      pyb_resetJointState = (\<lambda>w b i a. Inr (w @ [ResetJointState b i a])),
      pyb_VELOCITY_CONTROL = 0,
      pyb_setJointMotorControlArray = (\<lambda>w b idxs m ts.
        Inr (w @ [SetJointMotorControlArray b idxs m ts])),
      pyb_getLinkState = (\<lambda>w b l fk.
        if b = 0 \<and> l = 1 then Inr arm_link_state
        else Inl (PybError ''getLinkState failed.'')),
      pyb_calculateJacobian = (\<lambda>w b l off q qd qdd.
        Inr (replicate 3 (map (\<lambda>x. x + 1) q), replicate 3 (map (\<lambda>x. 1) q))),
      pyb_getDynamicsInfo = (\<lambda>w b l c.
        if b = 0 then Inr arm_dynamics_raw
        else Inl (PybError ''getDynamicsInfo failed.'')),
      pyb_getContactPoints = (\<lambda>w a b la lb c.
        if a = 0 then Inr [arm_contact_raw 0, arm_contact_raw 1] else Inr []),
      bytes_decode = (\<lambda>enc bs. Inr bs)\<rparr>"

definition arm :: Robot where
  "arm = \<lparr>uid = 0, num_joints = 2, joint_indices = [0, 1], tool_idx = 1\<rparr>"

text \<open>The same engine reporting other joint positions and velocities.\<close>

definition arm_pyb_moving :: "pyb_call list pyb" where
  "arm_pyb_moving =
     arm_pyb\<lparr>pyb_getJointStates := (\<lambda>w b idxs.
        Inr (map (\<lambda>i. (7, 9, [], 0)) idxs))\<rparr>"

section \<open>Properties of the construction\<close>

lemma length_py_range: "length (py_range n) = nat n"
  by (simp add: py_range_def)

lemma py_getitem_last_range:
  "1 \<le> n \<Longrightarrow> py_getitem kind (py_range n) (- 1) = Inr (n - 1)"
  by (simp add: py_getitem_def py_range_def Let_def)

lemma py_getitem_empty: "py_getitem kind [] i = Inl (IndexError (kind @ '' index out of range''))"
  by (simp add: py_getitem_def Let_def)

lemma py_range_2: "py_range 2 = [0, 1]"
  by (simp add: py_range_def upto.simps)

lemma arm_num_joints: "pyb_getNumJoints arm_pyb w 0 = Inr 2"
  by (simp add: arm_pyb_def)

text \<open>
  The loop of the constructor, when the joint-info adapter answers for every joint it is
  asked about: it finds the first index of the range whose joint has the name.
\<close>

lemma find_tool_idx_find:
  "\<forall>i\<in>set js. getJointInfo eng w u i 0 (Some ''utf-8'') = Inr (info i) \<Longrightarrow>
   find_tool_idx eng w u name js =
     Inr (map_option (\<lambda>i. jointIndex (info i)) (find (\<lambda>i. jointName (info i) = name) js))"
  by (induction js) auto

text \<open>
  Claim C1. Constructing a Robot with a tool joint name, on a body whose joint count
  and joint infos the engine answers (\<open>info i\<close> is the decoded info of joint \<open>i\<close>):
  the joints are scanned in index order \<open>0 .. num_joints - 1\<close> and \<open>tool_idx\<close> is the
  \<open>jointIndex\<close> of the first joint whose name equals the given one; when no joint has
  the name the constructor raises \<open>ValueError\<close> with the message naming it and gives no
  Robot. So the constructor succeeds exactly when some joint of the body has the name.
\<close>

theorem robot_init_named_tool:
  assumes "pyb_getNumJoints eng w u = Inr n"
    and "\<forall>i\<in>set (py_range n). getJointInfo eng w u i 0 (Some ''utf-8'') = Inr (info i)"
  shows "Robot_init eng w u (Some name) =
           (case find (\<lambda>i. jointName (info i) = name) (py_range n) of
              None \<Rightarrow> Inl (ValueError (''No joint with name '' @ name @ '' found.''))
            | Some i \<Rightarrow>
                Inr \<lparr>uid = u, num_joints = n, joint_indices = py_range n,
                     tool_idx = jointIndex (info i)\<rparr>) \<and>
         ((\<exists>r. Robot_init eng w u (Some name) = Inr r) \<longleftrightarrow>
          (\<exists>i. 0 \<le> i \<and> i < n \<and> jointName (info i) = name))"
proof -
  let ?P = "\<lambda>i. jointName (info i) = name"
  have eq: "Robot_init eng w u (Some name) =
           (case find ?P (py_range n) of
              None \<Rightarrow> Inl (ValueError (''No joint with name '' @ name @ '' found.''))
            | Some i \<Rightarrow>
                Inr \<lparr>uid = u, num_joints = n, joint_indices = py_range n,
                     tool_idx = jointIndex (info i)\<rparr>)"
    using assms(1) find_tool_idx_find [OF assms(2), of name]
    by (simp add: Robot_init_def Let_def split: option.splits)
  have "(find ?P (py_range n) \<noteq> None) \<longleftrightarrow> (\<exists>i. 0 \<le> i \<and> i < n \<and> ?P i)"
    by (auto simp: find_None_iff py_range_def)
  with eq show ?thesis by (auto split: option.splits)
qed

theorem robot_init_named_tool_witness:
  "pyb_getNumJoints arm_pyb [] 0 = Inr 2 \<and>
   Robot_init arm_pyb [] 0 (Some ''joint2'') =
     Inr \<lparr>uid = 0, num_joints = 2, joint_indices = [0, 1], tool_idx = 1\<rparr> \<and>
   Robot_init arm_pyb [] 0 (Some ''elbow'') =
     Inl (ValueError ''No joint with name elbow found.'')"
proof -
  let ?info = "\<lambda>i::int. \<lparr>jointIndex = i, jointName = (if i = 0 then ''joint1'' else ''joint2'')\<rparr>"
  have h: "pyb_getNumJoints arm_pyb [] 0 = Inr 2" by (rule arm_num_joints)
  have g: "\<forall>i\<in>set (py_range 2). getJointInfo arm_pyb [] 0 i 0 (Some ''utf-8'') = Inr (?info i)"
    by (simp add: py_range_2 getJointInfo_def arm_pyb_def)
  have a: "Robot_init arm_pyb [] 0 (Some ''joint2'') =
     Inr \<lparr>uid = 0, num_joints = 2, joint_indices = [0, 1], tool_idx = 1\<rparr>"
    using robot_init_named_tool [OF h g, of "''joint2''"] by (simp add: py_range_2)
  have b: "Robot_init arm_pyb [] 0 (Some ''elbow'') =
     Inl (ValueError ''No joint with name elbow found.'')"
    using robot_init_named_tool [OF h g, of "''elbow''"] by (simp add: py_range_2)
  show ?thesis using h a b by simp
qed

text \<open>
  Claim C5. Constructing a Robot without a tool joint name, on a body with at least
  one joint: the constructor returns, and \<open>tool_idx\<close> is the last joint index,
  \<open>num_joints - 1\<close>.
\<close>

theorem robot_init_default_tool:
  "pyb_getNumJoints eng w u = Inr n \<Longrightarrow> 1 \<le> n \<Longrightarrow>
   Robot_init eng w u None =
     Inr \<lparr>uid = u, num_joints = n, joint_indices = py_range n, tool_idx = n - 1\<rparr>"
  by (simp add: Robot_init_def py_getitem_last_range Let_def)

theorem robot_init_default_tool_witness:
  "pyb_getNumJoints arm_pyb [] 0 = Inr 2 \<and> (1::int) \<le> 2 \<and>
   Robot_init arm_pyb [] 0 None =
     Inr \<lparr>uid = 0, num_joints = 2, joint_indices = [0, 1], tool_idx = 1\<rparr>"
proof -
  have h: "pyb_getNumJoints arm_pyb [] 0 = Inr 2" by (rule arm_num_joints)
  show ?thesis using h robot_init_default_tool [OF h] py_range_2 by simp
qed

text \<open>
  Claim C10. Constructing a Robot without a tool joint name on a body with zero
  joints raises \<open>IndexError\<close>: the empty list of joint indices is indexed at \<open>-1\<close>. No
  Robot with a sentinel \<open>tool_idx\<close> is produced.
\<close>

theorem robot_init_no_joints_raises:
  "pyb_getNumJoints eng w u = Inr 0 \<Longrightarrow>
   Robot_init eng w u None = Inl (IndexError ''list index out of range'')"
  by (simp add: Robot_init_def py_range_def py_getitem_def Let_def)

theorem robot_init_no_joints_raises_witness:
  "pyb_getNumJoints arm_pyb [] 1 = Inr 0 \<and>
   Robot_init arm_pyb [] 1 None = Inl (IndexError ''list index out of range'')"
proof -
  have h: "pyb_getNumJoints arm_pyb [] 1 = Inr 0" by (simp add: arm_pyb_def)
  show ?thesis using h robot_init_no_joints_raises [OF h] by simp
qed

section \<open>Properties of the joint states\<close>

lemma find_tool_idx_Some_nonempty:
  "find_tool_idx eng w u name js = Inr (Some t) \<Longrightarrow> js \<noteq> []"
  by (cases js) auto

lemma py_range_nonempty: "py_range n \<noteq> [] \<Longrightarrow> 1 \<le> n"
  by (simp add: py_range_def)

lemma robot_init_joint_indices:
  assumes "Robot_init eng w u name = Inr r"
  shows "uid r = u \<and> joint_indices r = py_range (num_joints r) \<and> 1 \<le> num_joints r"
proof (cases "pyb_getNumJoints eng w u")
  case (Inl e)
  with assms show ?thesis by (simp add: Robot_init_def)
next
  case (Inr n)
  show ?thesis
  proof (cases name)
    case None
    from assms obtain t where t: "py_getitem ''list'' (py_range n) (- 1) = Inr t"
      by (auto simp: Robot_init_def Let_def None Inr split: sum.splits)
    then have "py_range n \<noteq> []" by (auto simp: py_getitem_empty)
    then have n: "1 \<le> n" by (rule py_range_nonempty)
    from assms have "r = \<lparr>uid = u, num_joints = n, joint_indices = py_range n, tool_idx = t\<rparr>"
      by (simp add: Robot_init_def Let_def None Inr t)
    with n show ?thesis by simp
  next
    case (Some nm)
    with Inr assms obtain t where t: "find_tool_idx eng w u nm (py_range n) = Inr (Some t)"
      by (auto simp: Robot_init_def Let_def split: sum.splits option.splits)
    from t have "py_range n \<noteq> []" by (rule find_tool_idx_Some_nonempty)
    then have n: "1 \<le> n" by (rule py_range_nonempty)
    from assms have "r = \<lparr>uid = u, num_joints = n, joint_indices = py_range n, tool_idx = t\<rparr>"
      by (simp add: Robot_init_def Let_def Some Inr t)
    with n show ?thesis by simp
  qed
qed

lemma nth_py_range: "k < nat n \<Longrightarrow> py_range n ! k = int k"
  by (simp add: py_range_def)

text \<open>
  Claim C8. For every constructed Robot the list of joint indices has \<open>num_joints\<close>
  entries. When the engine answers \<open>getJointStates\<close> with one state per requested
  joint, in the order asked (\<open>report i\<close> is the state it reports for joint \<open>i\<close>),
  \<open>get_joint_states\<close> returns a pair \<open>(q, v)\<close> of vectors of length \<open>num_joints\<close>, where
  \<open>q[i]\<close> is the position and \<open>v[i]\<close> the velocity reported for joint \<open>i\<close>.
\<close>

theorem get_joint_states_by_joint:
  assumes "Robot_init eng w u name = Inr r"
    and "pyb_getJointStates eng w (uid r) (joint_indices r) = Inr (map report (joint_indices r))"
  shows "int (length (joint_indices r)) = num_joints r \<and>
         (\<exists>q v. get_joint_states eng w r = Inr (q, v) \<and>
            int (length q) = num_joints r \<and> int (length v) = num_joints r \<and>
            (\<forall>k < nat (num_joints r).
               q ! k = fst (report (int k)) \<and> v ! k = fst (snd (report (int k)))))"
proof -
  from robot_init_joint_indices [OF assms(1)]
  have idx: "joint_indices r = py_range (num_joints r)" and pos: "1 \<le> num_joints r"
    by simp_all
  have len: "int (length (joint_indices r)) = num_joints r"
    using pos by (simp add: idx length_py_range)
  let ?q = "map (\<lambda>i. fst (report i)) (joint_indices r)"
  let ?v = "map (\<lambda>i. fst (snd (report i))) (joint_indices r)"
  have run: "get_joint_states eng w r = Inr (?q, ?v)"
    using assms(2) by (simp add: get_joint_states_def comp_def)
  have "\<forall>k < nat (num_joints r).
          ?q ! k = fst (report (int k)) \<and> ?v ! k = fst (snd (report (int k)))"
    by (simp add: idx length_py_range nth_py_range)
  with run len show ?thesis by auto
qed

theorem get_joint_states_by_joint_witness:
  "Robot_init arm_pyb [] 0 None = Inr arm \<and>
   pyb_getJointStates arm_pyb [] (uid arm) (joint_indices arm)
     = Inr (map (\<lambda>i. (of_int i + 1 / 2, - of_int i, [], 0)) (joint_indices arm)) \<and>
   int (length (joint_indices arm)) = num_joints arm \<and>
   get_joint_states arm_pyb [] arm = Inr ([1 / 2, 3 / 2], [0, - 1])"
proof -
  have i: "Robot_init arm_pyb [] 0 None = Inr arm"
    by (simp add: Robot_init_def arm_num_joints py_range_2 py_getitem_def arm_def)
  have s: "pyb_getJointStates arm_pyb [] (uid arm) (joint_indices arm)
     = Inr (map (\<lambda>i. (of_int i + 1 / 2, - of_int i, [], 0)) (joint_indices arm))"
    by (simp add: arm_pyb_def arm_def)
  have g: "get_joint_states arm_pyb [] arm = Inr ([1 / 2, 3 / 2], [0, - 1])"
    by (simp add: get_joint_states_def arm_pyb_def arm_def)
  from get_joint_states_by_joint [OF i s]
  have n: "int (length (joint_indices arm)) = num_joints arm" by (rule conjunct1)
  show ?thesis by (intro conjI i s n g)
qed

section \<open>Properties of the named tuples\<close>

lemma upt_12: "[0..<12] = [0, 1, 2, 3, 4, 5, 6, 7, 8, 9, 10, 11]"
  by (simp add: upt_rec)

lemma upt_14: "[0..<14] = [0, 1, 2, 3, 4, 5, 6, 7, 8, 9, 10, 11, 12, 13]"
  by (simp add: upt_rec)

lemma list_12:
  assumes "length xs = 12"
  shows "[xs ! 0, xs ! 1, xs ! 2, xs ! 3, xs ! 4, xs ! 5, xs ! 6, xs ! 7, xs ! 8, xs ! 9,
          xs ! 10, xs ! 11] = xs"
proof -
  have "map (\<lambda>i. xs ! i) [0..<12] = xs" using map_nth [of xs] assms by simp
  then show ?thesis by (simp only: upt_12 list.map)
qed

lemma list_14:
  assumes "length xs = 14"
  shows "[xs ! 0, xs ! 1, xs ! 2, xs ! 3, xs ! 4, xs ! 5, xs ! 6, xs ! 7, xs ! 8, xs ! 9,
          xs ! 10, xs ! 11, xs ! 12, xs ! 13] = xs"
proof -
  have "map (\<lambda>i. xs ! i) [0..<14] = xs" using map_nth [of xs] assms by simp
  then show ?thesis by (simp only: upt_14 list.map)
qed


lemma DynamicsInfo_new_tuple:
  "length raw = 12 \<Longrightarrow>
   \<exists>d. DynamicsInfo_new raw = Inr d \<and> DynamicsInfo_tuple d = raw \<and>
     mass d = raw ! 0 \<and> lateralFriction d = raw ! 1 \<and> localInertiaDiagonal d = raw ! 2 \<and>
     localInerialPos d = raw ! 3 \<and> localInertialOrn d = raw ! 4 \<and> restitution d = raw ! 5 \<and>
     rollingFriction d = raw ! 6 \<and> spinningFriction d = raw ! 7 \<and>
     contactDamping d = raw ! 8 \<and> contactStiffness d = raw ! 9 \<and> bodyType d = raw ! 10 \<and>
     collisionMargin d = raw ! 11"
  using list_12 [of raw]
  by (simp add: DynamicsInfo_new_def DynamicsInfo_tuple_def DynamicsInfo_fields_def)

lemma ContactPoint_new_tuple:
  "length raw = 14 \<Longrightarrow>
   \<exists>c. ContactPoint_new raw = Inr c \<and> ContactPoint_tuple c = raw"
  using list_14 [of raw]
  by (simp add: ContactPoint_new_def ContactPoint_tuple_def ContactPoint_fields_def)

lemma py_listcomp_inverse:
  "\<forall>x\<in>set xs. \<exists>y. f x = Inr y \<and> g y = x \<Longrightarrow>
   \<exists>ys. py_listcomp f xs = Inr ys \<and> map g ys = xs"
  by (induction xs) auto

text \<open>
  Claim C6. When the engine answers \<open>getDynamicsInfo\<close> for a body and link with its
  tuple of 12 values, \<open>getDynamicsInfo\<close> returns a \<open>DynamicsInfo\<close> record: it has 12
  named fields, in the order mass, lateralFriction, localInertiaDiagonal,
  localInerialPos, localInertialOrn, restitution, rollingFriction, spinningFriction,
  contactDamping, contactStiffness, bodyType, collisionMargin, and its i-th field is
  the i-th element of the engine's tuple.
\<close>

theorem getDynamicsInfo_positional:
  assumes "pyb_getDynamicsInfo eng w bodyUniqueId linkIndex physicsClientId = Inr raw"
    and "length raw = 12"
  shows "\<exists>d. getDynamicsInfo eng w bodyUniqueId linkIndex physicsClientId = Inr d \<and>
     length DynamicsInfo_fields = 12 \<and> DynamicsInfo_tuple d = raw \<and>
     mass d = raw ! 0 \<and> lateralFriction d = raw ! 1 \<and> localInertiaDiagonal d = raw ! 2 \<and>
     localInerialPos d = raw ! 3 \<and> localInertialOrn d = raw ! 4 \<and> restitution d = raw ! 5 \<and>
     rollingFriction d = raw ! 6 \<and> spinningFriction d = raw ! 7 \<and>
     contactDamping d = raw ! 8 \<and> contactStiffness d = raw ! 9 \<and> bodyType d = raw ! 10 \<and>
     collisionMargin d = raw ! 11"
  using DynamicsInfo_new_tuple [OF assms(2)] assms(1)
  by (simp add: getDynamicsInfo_def DynamicsInfo_fields_def)

theorem getDynamicsInfo_positional_witness:
  "pyb_getDynamicsInfo arm_pyb [] 0 1 0 = Inr arm_dynamics_raw \<and>
   length arm_dynamics_raw = 12 \<and>
   DynamicsInfo_tuple (projr (getDynamicsInfo arm_pyb [] 0 1 0)) = arm_dynamics_raw \<and>
   mass (projr (getDynamicsInfo arm_pyb [] 0 1 0)) = PyFloat 1 \<and>
   bodyType (projr (getDynamicsInfo arm_pyb [] 0 1 0)) = PyInt 2"
proof -
  have h: "pyb_getDynamicsInfo arm_pyb [] 0 1 0 = Inr arm_dynamics_raw"
    by (simp add: arm_pyb_def)
  have l: "length arm_dynamics_raw = 12" by (simp add: arm_dynamics_raw_def)
  from getDynamicsInfo_positional [OF h l] obtain d where
    d: "getDynamicsInfo arm_pyb [] 0 1 0 = Inr d" "DynamicsInfo_tuple d = arm_dynamics_raw"
       "mass d = arm_dynamics_raw ! 0" "bodyType d = arm_dynamics_raw ! 10"
    by blast
  have v: "arm_dynamics_raw ! 0 = PyFloat 1" "arm_dynamics_raw ! 10 = PyInt 2"
    by (simp_all add: arm_dynamics_raw_def)
  have p: "projr (getDynamicsInfo arm_pyb [] 0 1 0) = d" by (simp only: d(1) sum.sel)
  show ?thesis
    unfolding p by (intro conjI h l d(2)) (simp_all only: d(3,4) v)
qed

text \<open>
  Claim C7. When the engine answers \<open>getContactPoints\<close> with a list of points, each a
  tuple of 14 values, \<open>getContactPoints\<close> returns a list with one \<open>ContactPoint\<close>
  record per point, in the engine's order, each record's 14 fields bound positionally
  to the point's tuple; when the engine reports no contact the result is the empty
  list, and nothing is raised.
\<close>

theorem getContactPoints_positional:
  assumes "pyb_getContactPoints eng w bodyA bodyB linkIdxA linkIdxB physicsClientId
             = Inr points_raw"
    and "\<forall>point\<in>set points_raw. length point = 14"
  shows "\<exists>points. getContactPoints eng w bodyA bodyB linkIdxA linkIdxB physicsClientId
                    = Inr points \<and>
           length points = length points_raw \<and>
           map ContactPoint_tuple points = points_raw \<and>
           (points_raw = [] \<longrightarrow> points = [])"
proof -
  have "\<forall>point\<in>set points_raw.
          \<exists>c. ContactPoint_new point = Inr c \<and> ContactPoint_tuple c = point"
    using assms(2) ContactPoint_new_tuple by blast
  then obtain points where
    p: "py_listcomp ContactPoint_new points_raw = Inr points"
       "map ContactPoint_tuple points = points_raw"
    using py_listcomp_inverse [of points_raw ContactPoint_new ContactPoint_tuple] by blast
  have run: "getContactPoints eng w bodyA bodyB linkIdxA linkIdxB physicsClientId = Inr points"
    by (simp only: getContactPoints_def assms(1) sum.case p(1))
  have len: "length points = length points_raw"
    using arg_cong [OF p(2), of length] by (simp only: length_map)
  have emp: "points_raw = [] \<longrightarrow> points = []"
    unfolding p(2) [symmetric] by simp
  from run len p(2) emp show ?thesis by blast
qed

theorem getContactPoints_positional_witness:
  "pyb_getContactPoints arm_pyb [] 0 (- 1) (- 2) (- 2) 0
     = Inr [arm_contact_raw 0, arm_contact_raw 1] \<and>
   map ContactPoint_tuple (projr (getContactPoints arm_pyb [] 0 (- 1) (- 2) (- 2) 0))
     = [arm_contact_raw 0, arm_contact_raw 1] \<and>
   pyb_getContactPoints arm_pyb [] 5 (- 1) (- 2) (- 2) 0 = Inr [] \<and>
   getContactPoints arm_pyb [] 5 (- 1) (- 2) (- 2) 0 = Inr []"
proof -
  have h: "pyb_getContactPoints arm_pyb [] 0 (- 1) (- 2) (- 2) 0
     = Inr [arm_contact_raw 0, arm_contact_raw 1]"
    by (simp add: arm_pyb_def)
  have l: "\<forall>point\<in>set [arm_contact_raw 0, arm_contact_raw 1]. length point = 14"
    by (simp add: arm_contact_raw_def)
  have h0: "pyb_getContactPoints arm_pyb [] 5 (- 1) (- 2) (- 2) 0 = Inr []"
    by (simp add: arm_pyb_def)
  have l0: "\<forall>point\<in>set ([] :: pyval list list). length point = 14" by simp
  from getContactPoints_positional [OF h l]
  have a: "map ContactPoint_tuple (projr (getContactPoints arm_pyb [] 0 (- 1) (- 2) (- 2) 0))
             = [arm_contact_raw 0, arm_contact_raw 1]"
    by (elim exE conjE) simp
  from getContactPoints_positional [OF h0 l0]
  have b: "getContactPoints arm_pyb [] 5 (- 1) (- 2) (- 2) 0 = Inr []"
    by (elim exE conjE) simp
  show ?thesis by (intro conjI h a h0 b)
qed

section \<open>Properties of the Jacobian and the link pose\<close>

lemma np_vstack_blocks:
  assumes "has_shape Jv 3 n" and "has_shape Jw 3 n"
  shows "np_vstack Jv Jw = Inr (Jv @ Jw) \<and> has_shape (Jv @ Jw) 6 n"
proof -
  from assms have ne: "Jv \<noteq> []" "Jw \<noteq> []" by (auto simp: has_shape_def)
  from assms have rows: "list_all (\<lambda>row. length row = n) (Jv @ Jw)"
    by (simp add: has_shape_def)
  from ne rows have "length (hd (Jv @ Jw)) = n" by (cases Jv) simp_all
  with rows ne have "np_vstack Jv Jw = Inr (Jv @ Jw)"
    by (simp add: np_vstack_def np_atleast_2d_def Let_def)
  moreover from assms have "has_shape (Jv @ Jw) 6 n" by (simp add: has_shape_def)
  ultimately show ?thesis by simp
qed

text \<open>
  Claim C4. For a Robot with \<open>num_joints = n\<close>: \<open>jacobian(q, link_idx, offset)\<close> calls
  the engine's Jacobian routine with \<open>q\<close> (the current joint positions of
  \<open>get_joint_states\<close> when omitted), \<open>link_idx\<close> (\<open>tool_idx\<close> when omitted) and
  \<open>offset\<close> (the zero 3-vector when omitted), and when the engine answers with a
  3 by n linear block and a 3 by n angular block it returns the 6 by n matrix that
  stacks the linear block on top of the angular one. With all three arguments omitted
  the result has shape (6, num_joints).
\<close>

theorem jacobian_stacks_blocks:
  assumes "case q of None \<Rightarrow> get_joint_states eng w self = Inr (q', v')
                   | Some q1 \<Rightarrow> q' = q1"
    and "pyb_calculateJacobian eng w (uid self)
           (case link_idx of None \<Rightarrow> tool_idx self | Some l \<Rightarrow> l)
           (case offset of None \<Rightarrow> [0, 0, 0] | Some off \<Rightarrow> off)
           q' (replicate (length q') 0) (replicate (length q') 0) = Inr (Jv, Jw)"
    and "has_shape Jv 3 (nat (num_joints self))"
    and "has_shape Jw 3 (nat (num_joints self))"
  shows "jacobian eng w self q link_idx offset = Inr (Jv @ Jw) \<and>
         has_shape (Jv @ Jw) 6 (nat (num_joints self))"
proof -
  have z3: "np_zeros 3 = [0, 0, 0]" by (simp add: np_zeros_def numeral_3_eq_3)
  have "jacobian eng w self q link_idx offset = np_vstack Jv Jw"
    using assms(1,2)
    by (cases q; cases offset; cases link_idx)
       (simp_all add: jacobian_def np_zeros_like_def z3 Let_def)
  with np_vstack_blocks [OF assms(3,4)] show ?thesis by simp
qed

theorem jacobian_stacks_blocks_witness:
  "get_joint_states arm_pyb [] arm = Inr ([1 / 2, 3 / 2], [0, - 1]) \<and>
   jacobian arm_pyb [] arm None None None =
     Inr [[3 / 2, 5 / 2], [3 / 2, 5 / 2], [3 / 2, 5 / 2], [1, 1], [1, 1], [1, 1]] \<and>
   has_shape [[3 / 2, 5 / 2], [3 / 2, 5 / 2], [3 / 2, 5 / 2], [1, 1], [1, 1], [1, 1]]
     6 (nat (num_joints arm))"
proof -
  let ?Jv = "[[3 / 2, 5 / 2], [3 / 2, 5 / 2], [3 / 2, 5 / 2 :: real]]"
  let ?Jw = "[[1, 1], [1, 1], [1, 1 :: real]]"
  have g: "get_joint_states arm_pyb [] arm = Inr ([1 / 2, 3 / 2], [0, - 1])"
    by (simp add: get_joint_states_def arm_pyb_def arm_def)
  have q: "case None :: real list option of
             None \<Rightarrow> get_joint_states arm_pyb [] arm = Inr ([1 / 2, 3 / 2], [0, - 1])
           | Some q1 \<Rightarrow> [1 / 2, 3 / 2] = q1"
    using g by simp
  have J: "pyb_calculateJacobian arm_pyb [] (uid arm)
             (case None of None \<Rightarrow> tool_idx arm | Some l \<Rightarrow> l)
             (case None of None \<Rightarrow> [0, 0, 0] | Some off \<Rightarrow> off)
             [1 / 2, 3 / 2] (replicate (length [1 / 2, 3 / 2 :: real]) 0)
             (replicate (length [1 / 2, 3 / 2 :: real]) 0) = Inr (?Jv, ?Jw)"
    by (simp add: arm_pyb_def numeral_3_eq_3)
  have sv: "has_shape ?Jv 3 (nat (num_joints arm))"
    by (simp add: has_shape_def arm_def)
  have sw: "has_shape ?Jw 3 (nat (num_joints arm))"
    by (simp add: has_shape_def arm_def)
  from jacobian_stacks_blocks [OF q J sv sw]
  have r: "jacobian arm_pyb [] arm None None None = Inr (?Jv @ ?Jw)"
    and s: "has_shape (?Jv @ ?Jw) 6 (nat (num_joints arm))"
    by simp_all
  from r have r': "jacobian arm_pyb [] arm None None None =
     Inr [[3 / 2, 5 / 2], [3 / 2, 5 / 2], [3 / 2, 5 / 2], [1, 1], [1, 1], [1, 1]]"
    by simp
  from s have s': "has_shape
     [[3 / 2, 5 / 2], [3 / 2, 5 / 2], [3 / 2, 5 / 2], [1, 1], [1, 1], [1, 1]]
     6 (nat (num_joints arm))"
    by simp
  show ?thesis by (intro conjI g r' s')
qed

text \<open>
  Claim C9. With an explicit \<open>q\<close>, \<open>jacobian\<close> is a function of the engine's Jacobian
  routine alone, called with zero vectors for the velocities and accelerations: two
  calls with the same \<open>q\<close>, \<open>link_idx\<close> and \<open>offset\<close> return the same matrix, and so do
  calls on engine states that differ in anything but that routine, such as the
  current joint positions and velocities.
\<close>

theorem jacobian_explicit_q:
  assumes "pyb_calculateJacobian eng' w' = pyb_calculateJacobian eng w"
  shows "jacobian eng' w' self (Some q) link_idx offset
           = jacobian eng w self (Some q) link_idx offset \<and>
         jacobian eng w self (Some q) link_idx offset =
           (case pyb_calculateJacobian eng w (uid self)
                   (case link_idx of None \<Rightarrow> tool_idx self | Some l \<Rightarrow> l)
                   (case offset of None \<Rightarrow> [0, 0, 0] | Some off \<Rightarrow> off)
                   q (replicate (length q) 0) (replicate (length q) 0) of
              Inl e \<Rightarrow> Inl e
            | Inr (Jv, Jw) \<Rightarrow> np_vstack Jv Jw)"
proof -
  have z3: "np_zeros 3 = [0, 0, 0]" by (simp add: np_zeros_def numeral_3_eq_3)
  show ?thesis
    using assms by (cases offset; cases link_idx)
      (simp_all add: jacobian_def np_zeros_like_def z3 Let_def)
qed


theorem jacobian_explicit_q_witness:
  "pyb_calculateJacobian arm_pyb_moving [ResetJointState 0 0 4] = pyb_calculateJacobian arm_pyb [] \<and>
   get_joint_states arm_pyb_moving [ResetJointState 0 0 4] arm = Inr ([7, 7], [9, 9]) \<and>
   get_joint_states arm_pyb [] arm = Inr ([1 / 2, 3 / 2], [0, - 1]) \<and>
   jacobian arm_pyb_moving [ResetJointState 0 0 4] arm (Some [1, 2]) None None
     = jacobian arm_pyb [] arm (Some [1, 2]) None None \<and>
   jacobian arm_pyb [] arm (Some [1, 2]) None None
     = Inr [[2, 3], [2, 3], [2, 3], [1, 1], [1, 1], [1, 1]]"
proof -
  have h: "pyb_calculateJacobian arm_pyb_moving [ResetJointState 0 0 4]
             = pyb_calculateJacobian arm_pyb []"
    by (simp add: arm_pyb_moving_def arm_pyb_def)
  have g1: "get_joint_states arm_pyb_moving [ResetJointState 0 0 4] arm = Inr ([7, 7], [9, 9])"
    by (simp add: get_joint_states_def arm_pyb_moving_def arm_def)
  have g2: "get_joint_states arm_pyb [] arm = Inr ([1 / 2, 3 / 2], [0, - 1])"
    by (simp add: get_joint_states_def arm_pyb_def arm_def)
  note t = jacobian_explicit_q [OF h, of arm "[1, 2]" None None]
  from t have a: "jacobian arm_pyb_moving [ResetJointState 0 0 4] arm (Some [1, 2]) None None
     = jacobian arm_pyb [] arm (Some [1, 2]) None None"
    by (rule conjunct1)
  have c: "pyb_calculateJacobian arm_pyb [] (uid arm) (tool_idx arm) [0, 0, 0] [1, 2]
             [0, 0] [0, 0] = Inr ([[2, 3], [2, 3], [2, 3]], [[1, 1], [1, 1], [1, 1]])"
    by (simp add: arm_pyb_def numeral_3_eq_3)
  have v: "np_vstack [[2, 3], [2, 3], [2, 3]] [[1, 1], [1, 1], [1, 1]]
             = Inr [[2, 3], [2, 3], [2, 3], [1, 1], [1, 1], [1, 1]]"
    by (simp add: np_vstack_def np_atleast_2d_def)
  from t have b: "jacobian arm_pyb [] arm (Some [1, 2]) None None
     = Inr [[2, 3], [2, 3], [2, 3], [1, 1], [1, 1], [1, 1]]"
    by (simp add: c v)
  show ?thesis by (intro conjI h g1 g2 a b)
qed

text \<open>
  \<open>get_link_pose\<close> returns elements 4 and 5 of the link state: the pose of the URDF
  link frame.
\<close>

lemma get_link_pose_fields:
  "get_link_pose eng w self link_idx =
     (case pyb_getLinkState eng w (uid self)
             (case link_idx of None \<Rightarrow> tool_idx self | Some l \<Rightarrow> l) True of
        Inl e \<Rightarrow> Inl e
      | Inr st \<Rightarrow> Inr (worldLinkFramePosition st, worldLinkFrameOrientation st))"
  by (simp add: get_link_pose_def py_getitem_def LinkState_tuple_def Let_def split: sum.splits)

text \<open>
  Claim C3 says that \<open>get_link_pose\<close> returns the position and orientation of the
  link's centre of mass in the world frame, as its docstring does. On the arm, whose
  link 1 has its centre of mass half a unit above the link frame, it returns the pose
  of the link frame instead, which is not the pose of the centre of mass.
\<close>

theorem get_link_pose_link_frame:
  "get_link_pose arm_pyb [] arm None =
     Inr (worldLinkFramePosition arm_link_state, worldLinkFrameOrientation arm_link_state) \<and>
   get_link_pose arm_pyb [] arm None = Inr ([0, 0, 1], [0, 0, 0, 1]) \<and>
   linkWorldPosition arm_link_state = [0, 0, 3 / 2] \<and>
   get_link_pose arm_pyb [] arm None \<noteq>
     Inr (linkWorldPosition arm_link_state, linkWorldOrientation arm_link_state)"
  by (simp add: get_link_pose_fields arm_pyb_def arm_def arm_link_state_def)

section \<open>Properties of the joint commands\<close>

lemma zip_py_range:
  "zip (py_range n) q = map (\<lambda>k. (int k, q ! k)) [0..<min (nat n) (length q)]"
  by (rule nth_equalityI) (simp_all add: length_py_range nth_py_range)

lemma reset_joint_loop_error:
  "reset_joint_loop eng u ps w = Inl e \<Longrightarrow>
   \<exists>w' idx angle. pyb_resetJointState eng w' u idx angle = Inl e"
proof (induction ps arbitrary: w)
  case Nil
  then show ?case by simp
next
  case (Cons p ps)
  obtain idx angle where p: "p = (idx, angle)" by (cases p)
  show ?case
  proof (cases "pyb_resetJointState eng w u idx angle")
    case (Inl e')
    with Cons.prems p have "e' = e" by simp
    with Inl show ?thesis by blast
  next
    case (Inr w')
    with Cons.prems p have "reset_joint_loop eng u ps w' = Inl e" by simp
    then show ?thesis by (rule Cons.IH)
  qed
qed

text \<open>
  Claim C2, amended. For a constructed Robot, \<open>reset_joint_configuration(q)\<close> calls
  \<open>resetJointState\<close> for exactly the first \<open>min(len(q), num_joints)\<close> joints, joint
  \<open>k\<close> with \<open>q[k]\<close>, and raises nothing of its own: an exception it ends with is one
  the engine raised. \<open>command_velocity(u)\<close> truncates nothing: it is the single call
  of \<open>setJointMotorControlArray\<close> with all \<open>num_joints\<close> joint indices and the whole
  of \<open>u\<close>, whatever its length.
\<close>

theorem reset_truncates_command_forwards:
  assumes "Robot_init eng w0 u name = Inr self"
  shows "reset_joint_configuration eng w self q =
           reset_joint_loop eng u
             (map (\<lambda>k. (int k, q ! k)) [0..<min (nat (num_joints self)) (length q)]) w \<and>
         (\<forall>e. reset_joint_configuration eng w self q = Inl e \<longrightarrow>
              (\<exists>w' idx angle. pyb_resetJointState eng w' u idx angle = Inl e)) \<and>
         command_velocity eng w self v =
           pyb_setJointMotorControlArray eng w u (py_range (num_joints self))
             (pyb_VELOCITY_CONTROL eng) v"
proof -
  from robot_init_joint_indices [OF assms]
  have u: "uid self = u" and idx: "joint_indices self = py_range (num_joints self)"
    by simp_all
  have a: "reset_joint_configuration eng w self q =
           reset_joint_loop eng u
             (map (\<lambda>k. (int k, q ! k)) [0..<min (nat (num_joints self)) (length q)]) w"
    by (simp only: reset_joint_configuration_def u idx zip_py_range)
  have b: "\<forall>e. reset_joint_configuration eng w self q = Inl e \<longrightarrow>
              (\<exists>w' idx angle. pyb_resetJointState eng w' u idx angle = Inl e)"
    unfolding reset_joint_configuration_def u by (blast dest: reset_joint_loop_error)
  have c: "command_velocity eng w self v =
           pyb_setJointMotorControlArray eng w u (py_range (num_joints self))
             (pyb_VELOCITY_CONTROL eng) v"
    by (simp only: command_velocity_def u idx)
  show ?thesis by (intro conjI a b c)
qed

lemma upt_2: "[0..<2] = [0, 1]"
  by (simp add: upt_rec)

theorem reset_truncates_command_forwards_witness:
  "Robot_init arm_pyb [] 0 None = Inr arm \<and>
   reset_joint_configuration arm_pyb [] arm [5, 6, 7]
     = Inr [ResetJointState 0 0 5, ResetJointState 0 1 6] \<and>
   reset_joint_configuration arm_pyb [] arm [5] = Inr [ResetJointState 0 0 5] \<and>
   command_velocity arm_pyb [] arm [5, 6] = Inr [SetJointMotorControlArray 0 [0, 1] 0 [5, 6]]"
proof -
  have i: "Robot_init arm_pyb [] 0 None = Inr arm"
    by (simp add: Robot_init_def arm_num_joints py_range_2 py_getitem_def arm_def)
  note t = reset_truncates_command_forwards [OF i]
  have n: "nat (num_joints arm) = 2" by (simp add: arm_def)
  have r: "\<And>w k a. pyb_resetJointState arm_pyb w 0 k a = Inr (w @ [ResetJointState 0 k a])"
    by (simp add: arm_pyb_def)
  have a: "reset_joint_configuration arm_pyb [] arm [5, 6, 7]
     = Inr [ResetJointState 0 0 5, ResetJointState 0 1 6]"
    using t [of "[]" "[5, 6, 7]" "[]"] by (simp add: n upt_2 r)
  have b: "reset_joint_configuration arm_pyb [] arm [5] = Inr [ResetJointState 0 0 5]"
    using t [of "[]" "[5]" "[]"] by (simp add: n r)
  have c: "command_velocity arm_pyb [] arm [5, 6]
     = Inr [SetJointMotorControlArray 0 [0, 1] 0 [5, 6]]"
    using t [of "[]" "[]" "[5, 6]"] by (simp add: arm_def py_range_2 arm_pyb_def)
  show ?thesis by (intro conjI i a b c)
qed

text \<open>
  Claim C2 as stated fails for \<open>command_velocity\<close>: with three values for the two
  joints of the arm the engine is sent all three (the call differs from the one with
  the first two values), and with one value it is still sent both joint indices.
\<close>

theorem command_velocity_not_truncated:
  "command_velocity arm_pyb [] arm [5, 6, 7]
     = Inr [SetJointMotorControlArray 0 [0, 1] 0 [5, 6, 7]] \<and>
   command_velocity arm_pyb [] arm [5, 6, 7] \<noteq> command_velocity arm_pyb [] arm [5, 6] \<and>
   command_velocity arm_pyb [] arm [5] = Inr [SetJointMotorControlArray 0 [0, 1] 0 [5]]"
  by (simp add: command_velocity_def arm_pyb_def arm_def)

end
